theory Spec2Isabelle
  imports Complex_Main "HOL-Library.AList"
begin

section \<open>Budget metrics of one team\<close>

text \<open>
  The program is \<^verbatim>\<open>budget_automation.py\<close>. Amounts are Python numbers; they are
  modelled as exact reals, so the arithmetic below is the arithmetic of the formulas and
  not of IEEE rounding. The program adds and subtracts 64-bit floats and integers; on
  whole amounts of bounded size it computes the same numbers as the model, and a
  statement that equates two differently computed sums is made of such amounts only
  (\<open>whole_amount\<close> and \<open>exact_months\<close> below).

  Python's built-in \<^verbatim>\<open>max(a, b)\<close> keeps its first argument unless the second one is
  strictly greater.
\<close>

definition py_max :: "real \<Rightarrow> real \<Rightarrow> real" where
  "py_max a b = (if a < b then b else a)"

text \<open>
  The dictionary returned by \<^verbatim>\<open>compute_team_stats\<close> (lines 65 to 97), one field per
  key.
\<close>

record team_stats =
  ltp :: real
  buffer :: real
  ytd_spend :: real
  base_limit :: real
  over_vs_base :: real
  remaining_ltp :: real
  consumed_buffer :: real
  remaining_buffer :: real
  ytg_total :: real

definition compute_team_stats :: "real \<Rightarrow> real \<Rightarrow> real \<Rightarrow> team_stats" where
  "compute_team_stats l b y =
     (let base_limit' = l - b;
          over_vs_base' = y - base_limit';
          remaining_ltp' = py_max (l - y) 0;
          consumed_buffer' = py_max (y - l) 0;
          remaining_buffer' = py_max (b - consumed_buffer') 0;
          ytg_total' = py_max (l + b - y) 0
      in \<lparr> ltp = l, buffer = b, ytd_spend = y,
           base_limit = base_limit', over_vs_base = over_vs_base',
           remaining_ltp = remaining_ltp', consumed_buffer = consumed_buffer',
           remaining_buffer = remaining_buffer', ytg_total = ytg_total' \<rparr>)"

section \<open>Tables\<close>

text \<open>
  A spreadsheet cell as pandas hands it over: a missing value, a number or a text. The
  same type serves for column labels, which pandas takes from cells.
\<close>

datatype cell = NaN | Num real | Str string

datatype error = KeyError | IndexError | TypeError | FileNotFoundError

text \<open>
  A \<^verbatim>\<open>DataFrame\<close> is stored by columns, as pandas stores it: the number of rows and
  the labelled columns in order. In a well-formed table the labels are pairwise distinct,
  as \<^verbatim>\<open>read_excel\<close> makes them, and every column has \<open>nrows\<close> entries.
\<close>

record dataframe =
  nrows :: nat
  cols :: "(cell \<times> cell list) list"

definition labels :: "dataframe \<Rightarrow> cell list" where
  "labels df = map fst (cols df)"

definition wf_dataframe :: "dataframe \<Rightarrow> bool" where
  "wf_dataframe df =
     (distinct (labels df) \<and> list_all (\<lambda>lv. length (snd lv) = nrows df) (cols df))"

text \<open>
  \<^verbatim>\<open>df[c]\<close> raises \<^verbatim>\<open>KeyError\<close> for an unknown label. The lookup is the one of a
  well-formed table, where a label names one column; under a label that occurs twice
  pandas selects a table of both columns, which this lookup does not show, so nothing is
  stated of a table that is not well-formed beyond the columns it gains.
\<close>

definition getitem :: "dataframe \<Rightarrow> cell \<Rightarrow> error + cell list" where
  "getitem df c = (case map_of (cols df) c of None \<Rightarrow> Inl KeyError | Some vs \<Rightarrow> Inr vs)"

text \<open>
  \<^verbatim>\<open>df[[c1, c2, ...]]\<close>, the listed columns in the order asked for, again as in a
  well-formed table.
\<close>

fun getitems :: "dataframe \<Rightarrow> cell list \<Rightarrow> error + cell list list" where
  "getitems df [] = Inr []"
| "getitems df (c # cs) =
     (case getitem df c of
        Inl e \<Rightarrow> Inl e
      | Inr vs \<Rightarrow> (case getitems df cs of Inl e \<Rightarrow> Inl e | Inr vss \<Rightarrow> Inr (vs # vss)))"

text \<open>
  \<^verbatim>\<open>df[c] = values\<close> replaces the column of that label, or appends a new last column.
  \<^verbatim>\<open>df[c] = v\<close> with a scalar fills every row with it.
\<close>

definition setitem :: "dataframe \<Rightarrow> cell \<Rightarrow> cell list \<Rightarrow> dataframe" where
  "setitem df c vs = df\<lparr>cols := AList.update c vs (cols df)\<rparr>"

definition setitem_scalar :: "dataframe \<Rightarrow> cell \<Rightarrow> cell \<Rightarrow> dataframe" where
  "setitem_scalar df c v = setitem df c (replicate (nrows df) v)"

text \<open>Boolean indexing \<^verbatim>\<open>df[flags]\<close> keeps the rows whose flag is true.\<close>

definition select :: "bool list \<Rightarrow> 'a list \<Rightarrow> 'a list" where
  "select bs vs = map snd (filter fst (zip bs vs))"

definition mask_rows :: "dataframe \<Rightarrow> bool list \<Rightarrow> dataframe" where
  "mask_rows df bs =
     \<lparr>nrows = length (select bs (replicate (nrows df) ())),
      cols = map (\<lambda>(l, vs). (l, select bs vs)) (cols df)\<rparr>"

definition notna :: "cell \<Rightarrow> bool" where
  "notna c = (c \<noteq> NaN)"

definition isna :: "cell \<Rightarrow> bool" where
  "isna c = (c = NaN)"

definition fillna :: "cell \<Rightarrow> cell \<Rightarrow> cell" where
  "fillna v c = (if isna c then v else c)"

text \<open>
  \<^verbatim>\<open>pd.to_numeric(..., errors="coerce")\<close> on one cell: a number stays, a text becomes
  the number it spells or else NaN. Which texts spell which numbers is pandas' business;
  the reading of texts is the parameter \<open>parse\<close>.
\<close>

definition to_numeric :: "(string \<Rightarrow> real option) \<Rightarrow> cell \<Rightarrow> cell" where
  "to_numeric parse c =
     (case c of Str s \<Rightarrow> (case parse s of Some r \<Rightarrow> Num r | None \<Rightarrow> NaN) | _ \<Rightarrow> c)"

text \<open>
  Python's \<^verbatim>\<open>+\<close> on cell values: numbers add, texts concatenate, NaN is a float
  and absorbs a number, and a number and a text do not add.
\<close>

fun py_add :: "cell \<Rightarrow> cell \<Rightarrow> error + cell" where
  "py_add (Num a) (Num b) = Inr (Num (a + b))"
| "py_add (Str a) (Str b) = Inr (Str (a @ b))"
| "py_add (Num a) NaN = Inr NaN"
| "py_add NaN (Num b) = Inr NaN"
| "py_add NaN NaN = Inr NaN"
| "py_add _ _ = Inl TypeError"

fun add_reduce :: "cell \<Rightarrow> cell list \<Rightarrow> error + cell" where
  "add_reduce acc [] = Inr acc"
| "add_reduce acc (x # xs) =
     (case py_add acc x of Inl e \<Rightarrow> Inl e | Inr acc' \<Rightarrow> add_reduce acc' xs)"

text \<open>
  \<^verbatim>\<open>Series.sum()\<close>: missing values count as 0, the sum of no value is 0, and the
  values are added from the first one on. Numbers are added exactly here; pandas rounds
  64-bit floats and wraps 64-bit integers around.
\<close>

definition series_sum :: "cell list \<Rightarrow> error + cell" where
  "series_sum vs =
     (case map (fillna (Num 0)) vs of
        [] \<Rightarrow> Inr (Num 0)
      | x # xs \<Rightarrow> add_reduce x xs)"

text \<open>The value a cell of a numeric column adds to a sum that skips NaN.\<close>

definition num_value :: "cell \<Rightarrow> real" where
  "num_value c = (case c of Num r \<Rightarrow> r | _ \<Rightarrow> 0)"

text \<open>
  \<^verbatim>\<open>DataFrame.sum(axis=1)\<close> over numeric columns of \<open>n\<close> rows: one sum per row,
  added exactly.
\<close>

definition sum_axis1 :: "nat \<Rightarrow> cell list list \<Rightarrow> real list" where
  "sum_axis1 n css = foldr (\<lambda>cs acc. map2 (+) (map num_value cs) acc) css (replicate n 0)"

text \<open>
  The order of keys: numbers before texts, numbers by value, texts by code points,
  missing values last.
\<close>

fun str_le :: "string \<Rightarrow> string \<Rightarrow> bool" where
  "str_le [] t = True"
| "str_le (a # s) [] = False"
| "str_le (a # s) (b # t) =
     (if a = b then str_le s t else (of_char a :: nat) < of_char b)"

fun cell_le :: "cell \<Rightarrow> cell \<Rightarrow> bool" where
  "cell_le (Num a) (Num b) = (a \<le> b)"
| "cell_le (Str s) (Str t) = str_le s t"
| "cell_le (Num a) (Str t) = True"
| "cell_le (Str s) (Num b) = False"
| "cell_le NaN NaN = True"
| "cell_le NaN c = False"
| "cell_le c NaN = True"

fun insort_by :: "('a \<Rightarrow> cell) \<Rightarrow> 'a \<Rightarrow> 'a list \<Rightarrow> 'a list" where
  "insort_by f x [] = [x]"
| "insort_by f x (y # ys) =
     (if cell_le (f x) (f y) then x # y # ys else y # insort_by f x ys)"

definition sort_by :: "('a \<Rightarrow> cell) \<Rightarrow> 'a list \<Rightarrow> 'a list" where
  "sort_by f xs = foldr (insort_by f) xs []"

section \<open>The table loader\<close>

definition month_cols_original :: "string list" where
  "month_cols_original =
     [''Q1'', ''Unnamed: 8'', ''Unnamed: 9'', ''Q2'', ''Unnamed: 11'', ''Unnamed: 12'',
      ''Q3'', ''Unnamed: 14'', ''Unnamed: 15'', ''Q4'', ''Unnamed: 17'', ''Unnamed: 18'']"

text \<open>\<^verbatim>\<open>df.iloc[1:].reset_index(drop=True)\<close>: the table without its first row.\<close>

definition iloc_from_1 :: "dataframe \<Rightarrow> dataframe" where
  "iloc_from_1 df = \<lparr>nrows = nrows df - 1, cols = map (\<lambda>(l, vs). (l, drop 1 vs)) (cols df)\<rparr>"

text \<open>\<^verbatim>\<open>df.rename(columns=rename_map)\<close>: a label that is a key is replaced.\<close>

definition rename_columns :: "dataframe \<Rightarrow> (cell \<times> cell) list \<Rightarrow> dataframe" where
  "rename_columns df rename_map =
     df\<lparr>cols := map (\<lambda>(l, vs). (case map_of rename_map l of None \<Rightarrow> l | Some l' \<Rightarrow> l', vs))
                    (cols df)\<rparr>"

text \<open>
  \<^verbatim>\<open>load_flowplan_dataframe\<close> (lines 10 to 42), from the table that
  \<^verbatim>\<open>pd.read_excel(file_path, sheet_name=..., header=7)\<close> returned. \<^verbatim>\<open>df.iloc[0]\<close>
  raises \<^verbatim>\<open>IndexError\<close> on a table without rows, and selecting the twelve labels from
  that row raises \<^verbatim>\<open>KeyError\<close> when one is absent.
\<close>

definition load_flowplan_dataframe :: "dataframe \<Rightarrow> error + dataframe" where
  "load_flowplan_dataframe raw =
     (if nrows raw = 0 then Inl IndexError
      else case getitems raw (map Str month_cols_original) of
        Inl e \<Rightarrow> Inl e
      | Inr slots \<Rightarrow>
          let month_names = map (\<lambda>vs. case vs of [] \<Rightarrow> NaN | v # _ \<Rightarrow> v) slots;
              df = iloc_from_1 raw;
              rename_map = zip (map Str month_cols_original) month_names
          in Inr (rename_columns df rename_map))"

section \<open>The spend aggregator\<close>

text \<open>The loop \<^verbatim>\<open>for col in ...: if col not in df.columns: df[col] = v\<close>, one round.\<close>

definition ensure_column :: "cell \<Rightarrow> cell \<Rightarrow> dataframe \<Rightarrow> dataframe" where
  "ensure_column v col df = (if col \<notin> set (labels df) then setitem_scalar df col v else df)"

text \<open>
  \<^verbatim>\<open>compute_ytd_by_team\<close> (lines 100 to 123) changes the table it is given, so the
  model returns the table next to the result; the table is changed before anything can
  raise.
\<close>

definition compute_ytd_by_team :: "dataframe \<Rightarrow> (error + cell \<times> cell) \<times> dataframe" where
  "compute_ytd_by_team df0 =
     (let df = fold (ensure_column (Num 0))
                 [Str ''Actual'', Str ''Unnamed: 20'', Str ''CAMPAIGN'', Str ''Media''] df0
      in (case getitem df (Str ''CAMPAIGN'') of Inl e \<Rightarrow> Inl e | Inr campaign \<Rightarrow>
          case getitem df (Str ''Media'') of Inl e \<Rightarrow> Inl e | Inr media \<Rightarrow>
          let campaign_rows = mask_rows df (map2 (\<and>) (map notna campaign) (map isna media)) in
          case getitem campaign_rows (Str ''Actual'') of Inl e \<Rightarrow> Inl e | Inr actual \<Rightarrow>
          case series_sum (map (fillna (Num 0)) actual) of Inl e \<Rightarrow> Inl e | Inr marcom_ytd \<Rightarrow>
          case getitem campaign_rows (Str ''Unnamed: 20'') of Inl e \<Rightarrow> Inl e | Inr dm_actual \<Rightarrow>
          case series_sum (map (fillna (Num 0)) dm_actual) of Inl e \<Rightarrow> Inl e | Inr dm_ytd \<Rightarrow>
          Inr (marcom_ytd, dm_ytd),
          df))"

definition month_order :: "string list" where
  "month_order =
     [''Jan'', ''Feb'', ''Mar'', ''Apr'', ''May'', ''Jun'',
      ''Jul'', ''Aug'', ''Sep'', ''Oct'', ''Nov'', ''Dec'']"

text \<open>
  Python's \<^verbatim>\<open>xs[:n]\<close> and \<^verbatim>\<open>xs[i]\<close> for any integer: a negative number counts from
  the end; the slice never raises, the index raises \<^verbatim>\<open>IndexError\<close> out of range.
\<close>

definition py_slice_to :: "'a list \<Rightarrow> int \<Rightarrow> 'a list" where
  "py_slice_to xs n = (if 0 \<le> n then take (nat n) xs else take (nat (int (length xs) + n)) xs)"

definition py_index :: "'a list \<Rightarrow> int \<Rightarrow> error + 'a" where
  "py_index xs i =
     (let j = (if i < 0 then int (length xs) + i else i)
      in if 0 \<le> j \<and> j < int (length xs) then Inr (xs ! nat j) else Inl IndexError)"

text \<open>One row of the table that \<^verbatim>\<open>compute_channel_spend\<close> returns.\<close>

record channel_row =
  Media :: cell
  YTD :: real
  MONTH :: real

text \<open>
  \<^verbatim>\<open>groupby("Media")[["YTD", "MONTH"]].sum().reset_index()\<close>: rows without a key are
  dropped, there is one row per key, in the order of the keys. The sums are exact.
\<close>

definition groupby_sum :: "cell list \<Rightarrow> real list \<Rightarrow> real list \<Rightarrow> channel_row list" where
  "groupby_sum keys ytd month =
     map (\<lambda>k. \<lparr>Media = k,
                YTD = sum_list (select (map (\<lambda>k'. k' = k) keys) ytd),
                MONTH = sum_list (select (map (\<lambda>k'. k' = k) keys) month)\<rparr>)
         (sort_by id (remdups (filter notna keys)))"

text \<open>
  The working copy of \<^verbatim>\<open>compute_channel_spend\<close> after lines 155 to 160: the rows
  with a channel, copied, and every month column made sure of. The caller's table is not
  touched.
\<close>

definition channel_rows_of :: "dataframe \<Rightarrow> cell list \<Rightarrow> dataframe" where
  "channel_rows_of df media =
     fold (ensure_column (Num 0)) (map Str month_order) (mask_rows df (map notna media))"

text \<open>
  \<^verbatim>\<open>compute_channel_spend\<close> (lines 126 to 177). The month name is looked up before
  the table is read, so an index out of range raises first.
\<close>

definition compute_channel_spend ::
  "(string \<Rightarrow> real option) \<Rightarrow> dataframe \<Rightarrow> int \<Rightarrow> error + channel_row list" where
  "compute_channel_spend parse df current_month =
     (let active_months = py_slice_to month_order current_month in
      case py_index month_order (current_month - 1) of Inl e \<Rightarrow> Inl e | Inr current_month_name \<Rightarrow>
      case getitem df (Str ''Media'') of Inl e \<Rightarrow> Inl e | Inr media \<Rightarrow>
      let channel_rows = channel_rows_of df media in
      case getitems channel_rows (map Str active_months) of Inl e \<Rightarrow> Inl e | Inr active \<Rightarrow>
      let ytd = sum_axis1 (nrows channel_rows)
                  (map (map (fillna (Num 0) \<circ> to_numeric parse \<circ> fillna (Num 0))) active);
          channel_rows = setitem channel_rows (Str ''YTD'') (map Num ytd) in
      case getitem channel_rows (Str current_month_name) of Inl e \<Rightarrow> Inl e | Inr cur \<Rightarrow>
      let channel_rows =
            setitem channel_rows (Str ''MONTH'') (map (fillna (Num 0) \<circ> to_numeric parse) cur) in
      case getitem channel_rows (Str ''Media'') of Inl e \<Rightarrow> Inl e | Inr keys \<Rightarrow>
      case getitem channel_rows (Str ''YTD'') of Inl e \<Rightarrow> Inl e | Inr ytd_col \<Rightarrow>
      case getitem channel_rows (Str ''MONTH'') of Inl e \<Rightarrow> Inl e | Inr month_col \<Rightarrow>
      Inr (groupby_sum keys (map num_value ytd_col) (map num_value month_col)))"

section \<open>The summary writer\<close>

text \<open>Python's \<^verbatim>\<open>str(n)\<close> for an integer, as an f-string prints it.\<close>

fun str_nat :: "nat \<Rightarrow> string" where
  "str_nat n =
     (if n < 10 then [char_of (48 + n)] else str_nat (n div 10) @ [char_of (48 + n mod 10)])"

definition str_int :: "int \<Rightarrow> string" where
  "str_int i = (if i < 0 then CHR ''-'' # str_nat (nat (- i)) else str_nat (nat i))"

text \<open>
  Python's \<^verbatim>\<open>s.replace(old, new)\<close>: every occurrence of \<open>old\<close>, found from the left
  and not overlapping, is replaced; a text without \<open>old\<close> comes back as it is.
\<close>

fun str_replace :: "string \<Rightarrow> string \<Rightarrow> string \<Rightarrow> string" where
  "str_replace old new [] = (if old = [] then new else [])"
| "str_replace old new (c # cs) =
     (if old = [] then new @ c # str_replace old new cs
      else if take (length old) (c # cs) = old
           then new @ str_replace old new (drop (length old) (c # cs))
           else c # str_replace old new cs)"

text \<open>
  A worksheet maps cell addresses such as \<^verbatim>\<open>A1\<close> to values and a workbook is the
  list of its titled sheets. The files are the workbooks that \<^verbatim>\<open>load_workbook\<close> finds
  at a path, together with the paths whose directory part exists: \<^verbatim>\<open>wb.save\<close> creates
  a file there and raises \<^verbatim>\<open>FileNotFoundError\<close> anywhere else.
\<close>

type_synonym worksheet = "string \<Rightarrow> cell option"

type_synonym workbook = "(string \<times> worksheet) list"

record filesystem =
  workbooks :: "string \<Rightarrow> workbook option"
  dir_exists :: "string \<Rightarrow> bool"

definition sheetnames :: "workbook \<Rightarrow> string list" where
  "sheetnames wb = map fst wb"

text \<open>\<^verbatim>\<open>wb.remove(wb[title])\<close>: the first sheet of that title leaves the workbook.\<close>

fun remove_sheet :: "string \<Rightarrow> workbook \<Rightarrow> workbook" where
  "remove_sheet title [] = []"
| "remove_sheet title (s # wb) = (if fst s = title then wb else s # remove_sheet title wb)"

text \<open>
  \<^verbatim>\<open>wb.create_sheet(title)\<close> appends an empty sheet. openpyxl keeps titles apart
  without regard to case: when a sheet of the workbook has the title in any casing, the
  new sheet gets a numbered title instead, here \<open>uniq\<close> of the present titles and the
  title asked for; otherwise it gets the title asked for. The letters of the one title
  used here are ASCII, so lowering ASCII letters decides the comparison.
\<close>

definition lower_char :: "char \<Rightarrow> char" where
  "lower_char c =
     (let n = (of_char c :: nat) in if 65 \<le> n \<and> n \<le> 90 then char_of (n + 32) else c)"

definition lower :: "string \<Rightarrow> string" where
  "lower s = map lower_char s"

definition new_sheet_title :: "(string list \<Rightarrow> string \<Rightarrow> string) \<Rightarrow> workbook \<Rightarrow> string \<Rightarrow> string" where
  "new_sheet_title uniq wb title =
     (if \<exists>n \<in> set (sheetnames wb). lower n = lower title
      then uniq (sheetnames wb) title else title)"

definition write_header :: "worksheet \<Rightarrow> worksheet" where
  "write_header ws =
     ws(''A1'' \<mapsto> Str ''Team'',
        ''B1'' \<mapsto> Str ''LTP'',
        ''C1'' \<mapsto> Str ''Buffer'',
        ''D1'' \<mapsto> Str ''YTD Spend'',
        ''E1'' \<mapsto> Str ''Base limit (LTP - buffer)'',
        ''F1'' \<mapsto> Str ''Over/(under) vs base'',
        ''G1'' \<mapsto> Str ''Remaining LTP'',
        ''H1'' \<mapsto> Str ''Consumed buffer'',
        ''I1'' \<mapsto> Str ''Remaining buffer'',
        ''J1'' \<mapsto> Str ''YTG total (LTP + buffer - YTD)'')"

definition write_team_row :: "worksheet \<Rightarrow> nat \<Rightarrow> string \<Rightarrow> team_stats \<Rightarrow> worksheet" where
  "write_team_row ws row name stats =
     ws(''A'' @ str_nat row \<mapsto> Str name,
        ''B'' @ str_nat row \<mapsto> Num (ltp stats),
        ''C'' @ str_nat row \<mapsto> Num (buffer stats),
        ''D'' @ str_nat row \<mapsto> Num (ytd_spend stats),
        ''E'' @ str_nat row \<mapsto> Num (base_limit stats),
        ''F'' @ str_nat row \<mapsto> Num (over_vs_base stats),
        ''G'' @ str_nat row \<mapsto> Num (remaining_ltp stats),
        ''H'' @ str_nat row \<mapsto> Num (consumed_buffer stats),
        ''I'' @ str_nat row \<mapsto> Num (remaining_buffer stats),
        ''J'' @ str_nat row \<mapsto> Num (ytg_total stats))"

text \<open>
  \<^verbatim>\<open>per_channel.sort_values("Media")\<close>: ascending by channel, missing keys last; numbers
  and texts do not compare, so a column holding both raises \<^verbatim>\<open>TypeError\<close>. Rows of the
  same key stay in their order here; \<^verbatim>\<open>compute_channel_spend\<close> returns no two such rows.
\<close>

definition is_Num :: "cell \<Rightarrow> bool" where
  "is_Num c = (case c of Num r \<Rightarrow> True | _ \<Rightarrow> False)"

definition is_Str :: "cell \<Rightarrow> bool" where
  "is_Str c = (case c of Str s \<Rightarrow> True | _ \<Rightarrow> False)"

definition sort_values_Media :: "channel_row list \<Rightarrow> error + channel_row list" where
  "sort_values_Media recs =
     (if (\<exists>r \<in> set recs. is_Num (Media r)) \<and> (\<exists>r \<in> set recs. is_Str (Media r))
      then Inl TypeError else Inr (sort_by Media recs))"

text \<open>The loop over the sorted channel rows, from sheet row \<open>row\<close> on.\<close>

fun write_channel_rows :: "worksheet \<Rightarrow> nat \<Rightarrow> channel_row list \<Rightarrow> worksheet" where
  "write_channel_rows ws row [] = ws"
| "write_channel_rows ws row (rec # recs) =
     write_channel_rows
       (ws(''A'' @ str_nat row \<mapsto> Media rec,
           ''B'' @ str_nat row \<mapsto> Num (YTD rec),
           ''C'' @ str_nat row \<mapsto> Num (MONTH rec)))
       (row + 1) recs"

text \<open>
  What \<^verbatim>\<open>write_automated_summary\<close> writes into the sheet it has created: the header,
  the two team rows in their fixed order, the channel section. Sorting the channel rows
  can raise.
\<close>

definition fill_summary ::
  "worksheet \<Rightarrow> team_stats \<Rightarrow> team_stats \<Rightarrow> channel_row list \<Rightarrow> int \<Rightarrow> error + worksheet" where
  "fill_summary ws0 marcom_stats dm_stats per_channel current_month =
     (let ws = write_header ws0;
          ws = write_team_row ws 2 ''MarCom'' marcom_stats;
          ws = write_team_row ws 3 ''Digital Marketing'' dm_stats;
          ws = ws(''A5'' \<mapsto> Str (''Channel spend (current month = '' @ str_int current_month @ '')''),
                  ''A6'' \<mapsto> Str ''Channel'',
                  ''B6'' \<mapsto> Str ''Spend YTD'',
                  ''C6'' \<mapsto> Str ''Spend current month'')
      in case sort_values_Media per_channel of
           Inl e \<Rightarrow> Inl e
         | Inr recs \<Rightarrow> Inr (write_channel_rows ws 7 recs))"

text \<open>
  \<^verbatim>\<open>write_automated_summary\<close> (lines 180 to 246) reads and writes files, so the model
  takes the files and returns them next to the result. The workbook is changed in memory
  only, and nothing is saved when a step raises; the last step that can raise is the
  saving itself.
\<close>

definition write_automated_summary ::
  "(string list \<Rightarrow> string \<Rightarrow> string) \<Rightarrow> filesystem \<Rightarrow> string \<Rightarrow> team_stats \<Rightarrow> team_stats \<Rightarrow>
   channel_row list \<Rightarrow> int \<Rightarrow> (error + string) \<times> filesystem" where
  "write_automated_summary uniq fs file_path marcom_stats dm_stats per_channel current_month =
     (case workbooks fs file_path of
        None \<Rightarrow> (Inl FileNotFoundError, fs)
      | Some wb0 \<Rightarrow>
          let wb = (if ''Automated Summary'' \<in> set (sheetnames wb0)
                    then remove_sheet ''Automated Summary'' wb0 else wb0);
              title = new_sheet_title uniq wb ''Automated Summary''
          in case fill_summary Map.empty marcom_stats dm_stats per_channel current_month of
               Inl e \<Rightarrow> (Inl e, fs)
             | Inr ws \<Rightarrow>
                 let out_path = str_replace ''.xlsx'' ''_automated.xlsx'' file_path
                 in if dir_exists fs out_path
                    then (Inr out_path,
                          fs\<lparr>workbooks := (workbooks fs)(out_path \<mapsto> wb @ [(title, ws)])\<rparr>)
                    else (Inl FileNotFoundError, fs))"

section \<open>The pipeline\<close>

definition FILE_PATH :: string where
  "FILE_PATH = ''2025 Digital budget flowplan.xlsx''"

definition CURRENT_MONTH :: int where
  "CURRENT_MONTH = 11"

text \<open>
  \<^verbatim>\<open>compute_team_stats\<close> on a total that \<^verbatim>\<open>compute_ytd_by_team\<close> returned: the
  subtraction of a text from a number raises \<^verbatim>\<open>TypeError\<close>. A total is never a
  missing value, since the sum fills missing values first.
\<close>

definition team_stats_of :: "real \<Rightarrow> real \<Rightarrow> cell \<Rightarrow> error + team_stats" where
  "team_stats_of l b ytd =
     (case ytd of Num y \<Rightarrow> Inr (compute_team_stats l b y) | _ \<Rightarrow> Inl TypeError)"

text \<open>
  \<^verbatim>\<open>main\<close> (lines 249 to 273), from the table that \<^verbatim>\<open>read_excel\<close> returned and the four figures that
  \<^verbatim>\<open>read_budgets_and_buffers\<close> returned. The table that step 3 has changed is the
  table that step 5 receives.
\<close>

definition main ::
  "(string \<Rightarrow> real option) \<Rightarrow> (string list \<Rightarrow> string \<Rightarrow> string) \<Rightarrow> dataframe \<Rightarrow>
   real \<times> real \<times> real \<times> real \<Rightarrow> filesystem \<Rightarrow> (error + string) \<times> filesystem" where
  "main parse uniq raw budgets fs =
     (case load_flowplan_dataframe raw of Inl e \<Rightarrow> (Inl e, fs) | Inr df \<Rightarrow>
      case budgets of (marcom_ltp, marcom_buffer, dm_ltp, dm_buffer) \<Rightarrow>
      case compute_ytd_by_team df of
        (Inl e, df) \<Rightarrow> (Inl e, fs)
      | (Inr (marcom_ytd, dm_ytd), df) \<Rightarrow>
      case team_stats_of marcom_ltp marcom_buffer marcom_ytd of Inl e \<Rightarrow> (Inl e, fs) | Inr marcom_stats \<Rightarrow>
      case team_stats_of dm_ltp dm_buffer dm_ytd of Inl e \<Rightarrow> (Inl e, fs) | Inr dm_stats \<Rightarrow>
      case compute_channel_spend parse df CURRENT_MONTH of Inl e \<Rightarrow> (Inl e, fs) | Inr per_channel \<Rightarrow>
      write_automated_summary uniq fs FILE_PATH marcom_stats dm_stats per_channel CURRENT_MONTH)"

section \<open>What the specification says of a table\<close>

text \<open>
  The specification reads a table by rows: each row maps column names to cell values,
  sparsely. The cell of row \<open>i\<close> under a label is missing when the table has no such
  column.
\<close>

definition cell_at :: "dataframe \<Rightarrow> cell \<Rightarrow> nat \<Rightarrow> cell" where
  "cell_at df c i = (case map_of (cols df) c of None \<Rightarrow> NaN | Some vs \<Rightarrow> vs ! i)"

text \<open>"Non-numeric coerced to zero": the number in a cell, and zero where there is none.\<close>

definition numeric_or_zero :: "(string \<Rightarrow> real option) \<Rightarrow> cell \<Rightarrow> real" where
  "numeric_or_zero parse c =
     (case c of
        Num r \<Rightarrow> r
      | Str s \<Rightarrow> (case parse s of Some r \<Rightarrow> r | None \<Rightarrow> 0)
      | NaN \<Rightarrow> 0)"

text \<open>
  The sum of the listed month columns over the rows of the table whose channel is \<open>k\<close>,
  where \<open>media\<close> is the channel column of the table.
\<close>

definition spec_channel_sum ::
  "(string \<Rightarrow> real option) \<Rightarrow> dataframe \<Rightarrow> cell list \<Rightarrow> string list \<Rightarrow> cell \<Rightarrow> real" where
  "spec_channel_sum parse df media months k =
     (\<Sum>i\<leftarrow>filter (\<lambda>i. media ! i = k) [0..<nrows df].
        \<Sum>m\<leftarrow>months. numeric_or_zero parse (cell_at df (Str m) i))"

section \<open>Amounts on which the program adds exactly\<close>

text \<open>
  A whole amount of absolute value at most \<open>2 ^ 51\<close>: sums and differences of up to
  three of them are whole numbers below \<open>2 ^ 53\<close>, which 64-bit floats and integers
  hold exactly.
\<close>

definition whole_amount :: "real \<Rightarrow> bool" where
  "whole_amount r = (of_int \<lfloor>r\<rfloor> = r \<and> \<bar>r\<bar> \<le> 2 ^ 51)"


section \<open>Example inputs\<close>

text \<open>
  A small table: one campaign-summary row, two rows of the channel DV360 with
  Jan = 10, Feb = 20 and Jan = 5, Feb = 0, and one row of the channel Social whose
  February cell holds a text.
\<close>

definition example_table :: dataframe where
  "example_table =
     \<lparr>nrows = 4,
      cols = [(Str ''CAMPAIGN'', [Str ''Camp1'', NaN, NaN, NaN]),
              (Str ''Media'', [NaN, Str ''DV360'', Str ''DV360'', Str ''Social'']),
              (Str ''Actual'', [Num 100, NaN, NaN, NaN]),
              (Str ''Unnamed: 20'', [Num 40, NaN, NaN, NaN]),
              (Str ''Jan'', [NaN, Num 10, Num 5, Num 1]),
              (Str ''Feb'', [NaN, Num 20, Num 0, Str ''n/a''])]\<rparr>"

text \<open>Two campaign-summary rows; the actual spend of the second one is the text n/a.\<close>

definition table_text_actual :: dataframe where
  "table_text_actual =
     \<lparr>nrows = 2,
      cols = [(Str ''CAMPAIGN'', [Str ''Camp1'', Str ''Camp2'']),
              (Str ''Media'', [NaN, NaN]),
              (Str ''Actual'', [Num 100, Str ''n/a'']),
              (Str ''Unnamed: 20'', [Num 40, Num 2])]\<rparr>"

text \<open>
  Sheets as \<^verbatim>\<open>read_excel\<close> returns them, the row of month labels first. The first one
  has no channel column; in the second one the label of the first month slot is
  January; the third one has no column at the last month slot.
\<close>

definition raw_without_media :: dataframe where
  "raw_without_media =
     \<lparr>nrows = 3,
      cols = [(Str ''CAMPAIGN'', [NaN, Str ''Camp1'', NaN]),
              (Str ''Actual'', [NaN, Num 100, NaN]),
              (Str ''Q1'', [Str ''Jan'', NaN, Num 10]),
              (Str ''Unnamed: 8'', [Str ''Feb'', NaN, Num 20]),
              (Str ''Unnamed: 9'', [Str ''Mar'', NaN, NaN]),
              (Str ''Q2'', [Str ''Apr'', NaN, NaN]),
              (Str ''Unnamed: 11'', [Str ''May'', NaN, NaN]),
              (Str ''Unnamed: 12'', [Str ''Jun'', NaN, NaN]),
              (Str ''Q3'', [Str ''Jul'', NaN, NaN]),
              (Str ''Unnamed: 14'', [Str ''Aug'', NaN, NaN]),
              (Str ''Unnamed: 15'', [Str ''Sep'', NaN, NaN]),
              (Str ''Q4'', [Str ''Oct'', NaN, NaN]),
              (Str ''Unnamed: 17'', [Str ''Nov'', NaN, NaN]),
              (Str ''Unnamed: 18'', [Str ''Dec'', NaN, NaN])]\<rparr>"

text \<open>What the loader makes of the first sheet, and the files of a run on it.\<close>

definition table_without_media :: dataframe where
  "table_without_media =
     \<lparr>nrows = 2,
      cols = [(Str ''CAMPAIGN'', [Str ''Camp1'', NaN]),
              (Str ''Actual'', [Num 100, NaN]),
              (Str ''Jan'', [NaN, Num 10]),
              (Str ''Feb'', [NaN, Num 20]),
              (Str ''Mar'', [NaN, NaN]),
              (Str ''Apr'', [NaN, NaN]),
              (Str ''May'', [NaN, NaN]),
              (Str ''Jun'', [NaN, NaN]),
              (Str ''Jul'', [NaN, NaN]),
              (Str ''Aug'', [NaN, NaN]),
              (Str ''Sep'', [NaN, NaN]),
              (Str ''Oct'', [NaN, NaN]),
              (Str ''Nov'', [NaN, NaN]),
              (Str ''Dec'', [NaN, NaN])]\<rparr>"

definition flowplan_files :: filesystem where
  "flowplan_files =
     \<lparr>workbooks =
        (\<lambda>p. if p = FILE_PATH then Some [(''V2 2025 budget digital'', Map.empty)] else None),
      dir_exists = (\<lambda>p. True)\<rparr>"

text \<open>
  A workbook saved under a macro-enabled name, a workbook that already has a summary
  sheet, and a workbook under a macro-enabled name whose one sheet is titled as the
  summary but in small letters. All directories exist.
\<close>

definition xlsm_files :: filesystem where
  "xlsm_files =
     \<lparr>workbooks = (\<lambda>p. if p = ''budget.xlsm'' then Some [(''Sheet1'', Map.empty)] else None),
      dir_exists = (\<lambda>p. True)\<rparr>"




text \<open>A sheet without rows that lacks the month slots, as \<^verbatim>\<open>read_excel\<close> returns it.\<close>

definition raw_empty :: dataframe where
  "raw_empty = \<lparr>nrows = 0, cols = [(Str ''Media'', [])]\<rparr>"

definition raw_january :: dataframe where
  "raw_january =
     \<lparr>nrows = 2,
      cols = [(Str ''Media'', [NaN, Str ''DV360'']),
              (Str ''Q1'', [Str ''January'', Num 10]),
              (Str ''Unnamed: 8'', [Str ''Feb'', Num 20]),
              (Str ''Unnamed: 9'', [Str ''Mar'', NaN]),
              (Str ''Q2'', [Str ''Apr'', NaN]),
              (Str ''Unnamed: 11'', [Str ''May'', NaN]),
              (Str ''Unnamed: 12'', [Str ''Jun'', NaN]),
              (Str ''Q3'', [Str ''Jul'', NaN]),
              (Str ''Unnamed: 14'', [Str ''Aug'', NaN]),
              (Str ''Unnamed: 15'', [Str ''Sep'', NaN]),
              (Str ''Q4'', [Str ''Oct'', NaN]),
              (Str ''Unnamed: 17'', [Str ''Nov'', NaN]),
              (Str ''Unnamed: 18'', [Str ''Dec'', NaN])]\<rparr>"

definition raw_without_dec :: dataframe where
  "raw_without_dec =
     \<lparr>nrows = 2,
      cols = [(Str ''Media'', [NaN, Str ''DV360'']),
              (Str ''Q1'', [Str ''Jan'', Num 10]),
              (Str ''Unnamed: 8'', [Str ''Feb'', Num 20]),
              (Str ''Unnamed: 9'', [Str ''Mar'', NaN]),
              (Str ''Q2'', [Str ''Apr'', NaN]),
              (Str ''Unnamed: 11'', [Str ''May'', NaN]),
              (Str ''Unnamed: 12'', [Str ''Jun'', NaN]),
              (Str ''Q3'', [Str ''Jul'', NaN]),
              (Str ''Unnamed: 14'', [Str ''Aug'', NaN]),
              (Str ''Unnamed: 15'', [Str ''Sep'', NaN]),
              (Str ''Q4'', [Str ''Oct'', NaN]),
              (Str ''Unnamed: 17'', [Str ''Nov'', NaN])]\<rparr>"

section \<open>Properties of the metrics\<close>

lemma py_max_eq_max: "py_max a b = max a b"
  by (simp add: py_max_def max_def)

text \<open>
  Claim C1. \<^verbatim>\<open>compute_team_stats\<close> is a total function of (plan, buffer, ytdSpend)
  whose record holds exactly the formulas of the specification:
  baseLimit = plan - buffer, overVsBase = ytdSpend - baseLimit,
  remainingPlan = max(plan - ytdSpend, 0), consumedBuffer = max(ytdSpend - plan, 0),
  remainingBuffer = max(buffer - consumedBuffer, 0),
  ytgTotal = max(plan + buffer - ytdSpend, 0); and remainingPlan, remainingBuffer and
  ytgTotal are never negative.
\<close>

theorem compute_team_stats_formulas:
  "ltp (compute_team_stats l b y) = l \<and>
   buffer (compute_team_stats l b y) = b \<and>
   ytd_spend (compute_team_stats l b y) = y \<and>
   base_limit (compute_team_stats l b y) = l - b \<and>
   over_vs_base (compute_team_stats l b y) = y - (l - b) \<and>
   remaining_ltp (compute_team_stats l b y) = max (l - y) 0 \<and>
   consumed_buffer (compute_team_stats l b y) = max (y - l) 0 \<and>
   remaining_buffer (compute_team_stats l b y) = max (b - max (y - l) 0) 0 \<and>
   ytg_total (compute_team_stats l b y) = max (l + b - y) 0 \<and>
   0 \<le> remaining_ltp (compute_team_stats l b y) \<and>
   0 \<le> remaining_buffer (compute_team_stats l b y) \<and>
   0 \<le> ytg_total (compute_team_stats l b y)"
  by (simp add: compute_team_stats_def py_max_eq_max Let_def)

text \<open>
  Claim C2, as amended. For every (plan, buffer, ytdSpend) of whole amounts of absolute
  value at most \<open>2 ^ 51\<close>, on which the program computes exactly, with buffer not
  negative and ytdSpend at most plan + buffer,
  ytgTotal = remainingPlan + remainingBuffer.
\<close>

theorem ytg_total_split:
  assumes "whole_amount l" and "whole_amount b" and "whole_amount y"
    and "0 \<le> b" and "y \<le> l + b"
  shows "ytg_total (compute_team_stats l b y) =
         remaining_ltp (compute_team_stats l b y) + remaining_buffer (compute_team_stats l b y)"
  using assms by (simp add: compute_team_stats_def py_max_def Let_def)

text \<open>The amended C2 at the boundaries ytdSpend = 0, ytdSpend = plan and ytdSpend = plan + buffer.\<close>

theorem ytg_total_split_witness:
  "whole_amount 100 \<and> whole_amount 20 \<and> whole_amount 0 \<and> whole_amount 120 \<and>
   ytg_total (compute_team_stats 100 20 0) =
     remaining_ltp (compute_team_stats 100 20 0) + remaining_buffer (compute_team_stats 100 20 0) \<and>
   ytg_total (compute_team_stats 100 20 100) =
     remaining_ltp (compute_team_stats 100 20 100) + remaining_buffer (compute_team_stats 100 20 100) \<and>
   ytg_total (compute_team_stats 100 20 120) =
     remaining_ltp (compute_team_stats 100 20 120) + remaining_buffer (compute_team_stats 100 20 120) \<and>
   ytg_total (compute_team_stats 100 20 0) = 120 \<and>
   ytg_total (compute_team_stats 100 20 100) = 20 \<and>
   ytg_total (compute_team_stats 100 20 120) = 0"
  using ytg_total_split [of 100 20 0] ytg_total_split [of 100 20 100]
    ytg_total_split [of 100 20 120]
  by (simp add: whole_amount_def compute_team_stats_def py_max_def Let_def)

text \<open>
  Claim C2 as written fails for a negative buffer: with plan 10, buffer -5 and no spend,
  ytdSpend \<le> plan + buffer holds, ytgTotal is 5 but remainingPlan + remainingBuffer is 10.
  These are whole amounts, so the program computes the same numbers.
\<close>

theorem ytg_total_split_counterexample:
  "whole_amount 10 \<and> whole_amount (- 5) \<and> whole_amount 0 \<and>
   (0::real) \<le> 10 + (- 5) \<and>
   ytg_total (compute_team_stats 10 (- 5) 0) = 5 \<and>
   remaining_ltp (compute_team_stats 10 (- 5) 0) + remaining_buffer (compute_team_stats 10 (- 5) 0) = 10 \<and>
   ytg_total (compute_team_stats 10 (- 5) 0) \<noteq>
     remaining_ltp (compute_team_stats 10 (- 5) 0) + remaining_buffer (compute_team_stats 10 (- 5) 0)"
  by (simp add: whole_amount_def compute_team_stats_def py_max_def Let_def)


section \<open>Columns, rows and sorting\<close>

lemma getitem_cases: "getitem df c = (if c \<in> set (labels df) then Inr (the (map_of (cols df) c)) else Inl KeyError)"
proof (cases "map_of (cols df) c")
  case None
  then have "c \<notin> set (labels df)"
    by (simp add: labels_def map_of_eq_None_iff)
  with None show ?thesis by (simp add: getitem_def)
next
  case (Some vs)
  then have "c \<in> set (labels df)"
    unfolding labels_def by (metis map_of_eq_None_iff option.distinct(1) set_map)
  with Some show ?thesis by (simp add: getitem_def)
qed

lemma getitem_Inr_label: "getitem df c = Inr vs \<Longrightarrow> c \<in> set (labels df)"
  by (simp add: getitem_cases split: if_splits)

lemma labels_setitem:
  "labels (setitem df c vs) = (if c \<in> set (labels df) then labels df else labels df @ [c])"
  by (simp add: labels_def setitem_def update_keys)

lemma getitem_setitem:
  "getitem (setitem df c vs) c' = (if c' = c then Inr vs else getitem df c')"
  by (simp add: getitem_def setitem_def update_conv')

lemma nrows_setitem: "nrows (setitem df c vs) = nrows df"
  by (simp add: setitem_def)

lemma labels_ensure_column:
  "labels (ensure_column v c df) = (if c \<in> set (labels df) then labels df else labels df @ [c])"
  by (simp add: ensure_column_def setitem_scalar_def labels_setitem)

lemma nrows_ensure_column: "nrows (ensure_column v c df) = nrows df"
  by (simp add: ensure_column_def setitem_scalar_def nrows_setitem)

lemma getitem_ensure_column:
  "getitem (ensure_column v c df) c' =
     (if c' = c \<and> c \<notin> set (labels df) then Inr (replicate (nrows df) v) else getitem df c')"
  by (simp add: ensure_column_def setitem_scalar_def getitem_setitem)

lemma nrows_fold_ensure: "nrows (fold (ensure_column v) cs df) = nrows df"
  by (induction cs arbitrary: df) (simp_all add: nrows_ensure_column)

lemma labels_fold_ensure:
  "distinct cs \<Longrightarrow>
   labels (fold (ensure_column v) cs df) = labels df @ filter (\<lambda>c. c \<notin> set (labels df)) cs"
proof (induction cs arbitrary: df)
  case Nil
  then show ?case by simp
next
  case (Cons c cs)
  have "filter (\<lambda>x. x \<notin> set (labels (ensure_column v c df))) cs
        = filter (\<lambda>x. x \<notin> set (labels df)) cs"
    using Cons.prems by (intro filter_cong) (auto simp: labels_ensure_column)
  with Cons show ?case
    by (simp add: labels_ensure_column)
qed

lemma getitem_fold_ensure:
  "getitem (fold (ensure_column v) cs df) c' =
     (if c' \<in> set cs \<and> c' \<notin> set (labels df) then Inr (replicate (nrows df) v)
      else getitem df c')"
proof (induction cs arbitrary: df)
  case Nil
  then show ?case by simp
next
  case (Cons c cs)
  show ?case
    using Cons.IH [of "ensure_column v c df"]
    by (auto simp: labels_ensure_column nrows_ensure_column getitem_ensure_column
        split: if_splits)
qed

lemma set_labels_fold_ensure:
  "set (labels (fold (ensure_column v) cs df)) = set (labels df) \<union> set cs"
  by (induction cs arbitrary: df) (auto simp: labels_ensure_column)

lemma labels_mask_rows: "labels (mask_rows df bs) = labels df"
  by (simp add: labels_def mask_rows_def comp_def case_prod_unfold)

lemma getitem_mask_rows:
  "getitem (mask_rows df bs) c =
     (case getitem df c of Inl e \<Rightarrow> Inl e | Inr vs \<Rightarrow> Inr (select bs vs))"
  by (simp add: getitem_def mask_rows_def map_of_map split: option.splits)

lemma wf_getitem_length:
  "wf_dataframe df \<Longrightarrow> getitem df c = Inr vs \<Longrightarrow> length vs = nrows df"
  by (auto simp: wf_dataframe_def getitem_def list_all_iff split: option.splits
      dest!: map_of_SomeD)

subsection \<open>Row selection by indices\<close>

lemma select_nth:
  assumes "length bs = length xs"
  shows "select bs xs = map ((!) xs) (filter ((!) bs) [0..<length xs])"
proof -
  have "zip bs xs = map (\<lambda>i. (bs ! i, xs ! i)) [0..<length xs]"
    using assms by (intro nth_equalityI) simp_all
  then show ?thesis
    by (simp add: select_def filter_map comp_def)
qed

lemma select_map_same: "select (map p xs) (map h xs) = map h (filter p xs)"
  by (induction xs) (simp_all add: select_def)

lemma select_map_filter: "select (map p xs) xs = filter p xs"
  using select_map_same [of p xs id] by simp

lemma map2_same: "map2 f (map a xs) (map b xs) = map (\<lambda>x. f (a x) (b x)) xs"
  by (induction xs) simp_all

lemma sum_axis1_columns:
  "sum_axis1 (length is) (map (\<lambda>m. map (g m) is) ms) =
     map (\<lambda>i. \<Sum>m\<leftarrow>ms. num_value (g m i)) is"
proof (induction ms)
  case Nil
  show ?case by (simp add: sum_axis1_def map_replicate_const)
next
  case (Cons m ms)
  then show ?case by (simp add: sum_axis1_def map2_same comp_def)
qed

subsection \<open>The channel aggregation, step by step\<close>

lemma month_order_not_special:
  "m \<in> set month_order \<Longrightarrow> m \<noteq> ''YTD'' \<and> m \<noteq> ''MONTH'' \<and> m \<noteq> ''Media''"
  by (auto simp: month_order_def)

lemma nrows_mask_rows:
  "length bs = nrows df \<Longrightarrow> nrows (mask_rows df bs) = length (filter ((!) bs) [0..<nrows df])"
  by (simp add: mask_rows_def select_nth)

lemma getitem_channel_rows_month:
  assumes wf: "wf_dataframe df" and media: "getitem df (Str ''Media'') = Inr media"
    and m: "m \<in> set month_order"
  shows "getitem (channel_rows_of df media) (Str m) =
         Inr (map (\<lambda>i. case map_of (cols df) (Str m) of None \<Rightarrow> Num 0 | Some vs \<Rightarrow> vs ! i)
                (filter (\<lambda>i. notna (media ! i)) [0..<nrows df]))"
proof -
  let ?bs = "map notna media"
  let ?is = "filter (\<lambda>i. notna (media ! i)) [0..<nrows df]"
  have len: "length media = nrows df"
    using wf media by (rule wf_getitem_length)
  have is_eq: "filter ((!) ?bs) [0..<nrows df] = ?is"
    using len by (intro filter_cong) simp_all
  have n: "nrows (mask_rows df ?bs) = length ?is"
    using len is_eq by (simp add: nrows_mask_rows)
  show ?thesis
  proof (cases "map_of (cols df) (Str m)")
    case None
    then have "Str m \<notin> set (labels df)"
      by (simp add: labels_def map_of_eq_None_iff)
    with None m n show ?thesis
      by (simp add: channel_rows_of_def getitem_fold_ensure labels_mask_rows
          map_replicate_const)
  next
    case (Some vs)
    then have g: "getitem df (Str m) = Inr vs"
      by (simp add: getitem_def)
    then have lv: "length vs = nrows df"
      using wf by (simp add: wf_getitem_length)
    have "Str m \<in> set (labels df)"
      using g by (rule getitem_Inr_label)
    moreover have "select ?bs vs = map ((!) vs) ?is"
      using lv len is_eq by (simp add: select_nth)
    ultimately show ?thesis
      using Some g
      by (simp add: channel_rows_of_def getitem_fold_ensure labels_mask_rows
          getitem_mask_rows)
  qed
qed

lemma getitem_channel_rows_Media:
  assumes wf: "wf_dataframe df" and media: "getitem df (Str ''Media'') = Inr media"
  shows "getitem (channel_rows_of df media) (Str ''Media'') = Inr (filter notna media)"
proof -
  have "Str ''Media'' \<notin> set (map Str month_order)"
    by (auto simp: month_order_def)
  then show ?thesis
    using media
    by (simp add: channel_rows_of_def getitem_fold_ensure getitem_mask_rows select_map_filter
        del: set_map)
qed

lemma nrows_channel_rows:
  assumes wf: "wf_dataframe df" and media: "getitem df (Str ''Media'') = Inr media"
  shows "nrows (channel_rows_of df media) = length (filter (\<lambda>i. notna (media ! i)) [0..<nrows df])"
proof -
  have len: "length media = nrows df"
    using wf media by (rule wf_getitem_length)
  have "filter ((!) (map notna media)) [0..<nrows df] = filter (\<lambda>i. notna (media ! i)) [0..<nrows df]"
    using len by (intro filter_cong) simp_all
  then show ?thesis
    using len by (simp add: channel_rows_of_def nrows_fold_ensure nrows_mask_rows)
qed

lemma coerce_value:
  "num_value ((fillna (Num 0) \<circ> to_numeric parse \<circ> fillna (Num 0))
      (case map_of (cols df) c of None \<Rightarrow> Num 0 | Some vs \<Rightarrow> vs ! i))
   = numeric_or_zero parse (cell_at df c i)"
  by (simp add: num_value_def fillna_def isna_def to_numeric_def numeric_or_zero_def cell_at_def
      split: option.splits cell.splits)

lemma coerce_value_month:
  "num_value ((fillna (Num 0) \<circ> to_numeric parse)
      (case map_of (cols df) c of None \<Rightarrow> Num 0 | Some vs \<Rightarrow> vs ! i))
   = numeric_or_zero parse (cell_at df c i)"
  by (simp add: num_value_def fillna_def isna_def to_numeric_def numeric_or_zero_def cell_at_def
      split: option.splits cell.splits)

subsection \<open>Sorting by key\<close>

lemma set_insort_by: "set (insort_by f x ys) = insert x (set ys)"
  by (induction ys) auto

lemma set_sort_by: "set (sort_by f xs) = set xs"
  by (induction xs) (simp_all add: sort_by_def set_insort_by)



subsection \<open>Grouping\<close>

lemma filter_filter_implied:
  "(\<And>x. p x \<Longrightarrow> q x) \<Longrightarrow> filter p (filter q xs) = filter p xs"
  by (induction xs) auto

lemma group_sum_indices:
  assumes "k \<noteq> NaN"
  shows "sum_list (select (map (\<lambda>k'. k' = k) (map ((!) media) (filter (\<lambda>i. notna (media ! i)) [0..<n])))
                      (map h (filter (\<lambda>i. notna (media ! i)) [0..<n])))
         = (\<Sum>i\<leftarrow>filter (\<lambda>i. media ! i = k) [0..<n]. h i)"
proof -
  let ?is = "filter (\<lambda>i. notna (media ! i)) [0..<n]"
  have "select (map (\<lambda>i. media ! i = k) ?is) (map h ?is) = map h (filter (\<lambda>i. media ! i = k) ?is)"
    by (rule select_map_same)
  moreover have "filter (\<lambda>i. media ! i = k) ?is = filter (\<lambda>i. media ! i = k) [0..<n]"
    using assms by (intro filter_filter_implied) (simp add: notna_def)
  ultimately show ?thesis
    by (simp add: comp_def)
qed

lemma filter_notna_nth:
  "filter notna media = map ((!) media) (filter (\<lambda>i. notna (media ! i)) [0..<length media])"
proof -
  have "filter notna media = select (map notna media) media"
    by (simp add: select_map_filter)
  also have "\<dots> = map ((!) media) (filter ((!) (map notna media)) [0..<length media])"
    by (simp add: select_nth)
  also have "filter ((!) (map notna media)) [0..<length media]
             = filter (\<lambda>i. notna (media ! i)) [0..<length media]"
    by (intro filter_cong) simp_all
  finally show ?thesis .
qed

lemma map_num_value_Num: "map num_value (map Num xs) = xs"
  by (induction xs) (simp_all add: num_value_def)

lemma getitems_Inr_map:
  "(\<And>m. m \<in> set ms \<Longrightarrow> getitem df (g m) = Inr (f m)) \<Longrightarrow>
   getitems df (map g ms) = Inr (map f ms)"
  by (induction ms) simp_all

lemma py_index_Inr_mem: "py_index xs i = Inr x \<Longrightarrow> x \<in> set xs"
  by (auto simp: py_index_def Let_def split: if_splits)

lemma set_py_slice_to: "set (py_slice_to xs n) \<subseteq> set xs"
  by (auto simp: py_slice_to_def dest: in_set_takeD)

lemma compute_channel_spend_eq:
  assumes wf: "wf_dataframe df" and media: "getitem df (Str ''Media'') = Inr media"
    and idx: "py_index month_order (M - 1) = Inr cur"
  shows "compute_channel_spend parse df M =
         Inr (map (\<lambda>k. \<lparr>Media = k,
                         YTD = spec_channel_sum parse df media (py_slice_to month_order M) k,
                         MONTH = spec_channel_sum parse df media [cur] k\<rparr>)
                (sort_by id (remdups (filter notna media))))"
proof -
  let ?is = "filter (\<lambda>i. notna (media ! i)) [0..<nrows df]"
  let ?cr = "channel_rows_of df media"
  let ?ms = "py_slice_to month_order M"
  let ?cz = "\<lambda>m i. case map_of (cols df) (Str m) of None \<Rightarrow> Num 0 | Some vs \<Rightarrow> vs ! i"
  let ?F = "fillna (Num 0) \<circ> to_numeric parse \<circ> fillna (Num 0)"
  let ?G = "fillna (Num 0) \<circ> to_numeric parse"
  let ?Y = "\<lambda>i. \<Sum>m\<leftarrow>?ms. numeric_or_zero parse (cell_at df (Str m) i)"
  let ?Z = "\<lambda>i. numeric_or_zero parse (cell_at df (Str cur) i)"
  have len: "length media = nrows df"
    using wf media by (rule wf_getitem_length)
  have cur: "cur \<in> set month_order"
    using idx by (rule py_index_Inr_mem)
  have col: "getitem ?cr (Str m) = Inr (map (?cz m) ?is)" if "m \<in> set month_order" for m
    using wf media that by (rule getitem_channel_rows_month)
  have active: "getitems ?cr (map Str ?ms) = Inr (map (\<lambda>m. map (?cz m) ?is) ?ms)"
    using set_py_slice_to [of month_order M] by (intro getitems_Inr_map col) auto
  have n: "nrows ?cr = length ?is"
    using wf media by (rule nrows_channel_rows)
  have ytd: "sum_axis1 (nrows ?cr) (map (map ?F) (map (\<lambda>m. map (?cz m) ?is) ?ms)) = map ?Y ?is"
    using sum_axis1_columns [of ?is "\<lambda>m i. ?F (?cz m i)" ?ms]
    by (simp add: n comp_def coerce_value [unfolded comp_def])
  have month: "map num_value (map ?G (map (?cz cur) ?is)) = map ?Z ?is"
    by (simp add: comp_def coerce_value_month [unfolded comp_def])
  have keys: "getitem ?cr (Str ''Media'') = Inr (map ((!) media) ?is)"
    using getitem_channel_rows_Media [OF wf media] filter_notna_nth [of media] len by simp
  have ne: "cur \<noteq> ''YTD''" "cur \<noteq> ''MONTH''"
    using month_order_not_special [OF cur] by simp_all
  have run: "compute_channel_spend parse df M
             = Inr (groupby_sum (map ((!) media) ?is) (map ?Y ?is) (map ?Z ?is))"
    unfolding compute_channel_spend_def
    using ne by (simp add: idx media active ytd col [OF cur] getitem_setitem keys month
        map_num_value_Num del: map_map)
  have fk: "filter notna (map ((!) media) ?is) = filter notna media"
    using filter_notna_nth [of media] len by simp
  have "groupby_sum (map ((!) media) ?is) (map ?Y ?is) (map ?Z ?is)
        = map (\<lambda>k. \<lparr>Media = k,
                      YTD = spec_channel_sum parse df media ?ms k,
                      MONTH = spec_channel_sum parse df media [cur] k\<rparr>)
              (sort_by id (remdups (filter notna media)))"
    unfolding groupby_sum_def fk
  proof (rule map_cong [OF refl])
    fix k assume "k \<in> set (sort_by id (remdups (filter notna media)))"
    then have k: "k \<noteq> NaN"
      by (auto simp: set_sort_by notna_def)
    show "\<lparr>Media = k,
           YTD = sum_list (select (map (\<lambda>k'. k' = k) (map ((!) media) ?is)) (map ?Y ?is)),
           MONTH = sum_list (select (map (\<lambda>k'. k' = k) (map ((!) media) ?is)) (map ?Z ?is))\<rparr>
          = \<lparr>Media = k, YTD = spec_channel_sum parse df media ?ms k,
              MONTH = spec_channel_sum parse df media [cur] k\<rparr>"
      using group_sum_indices [OF k, of media "nrows df" ?Y]
        group_sum_indices [OF k, of media "nrows df" ?Z]
      by (simp add: spec_channel_sum_def)
  qed
  with run show ?thesis by simp
qed

section \<open>Properties of the spend aggregator\<close>

lemma py_index_month_in_range:
  assumes "1 \<le> M" "M \<le> 12"
  shows "py_index month_order (M - 1) = Inr (month_order ! (nat M - 1))"
proof -
  have "nat (M - 1) = nat M - 1" by simp
  with assms show ?thesis
    by (simp add: py_index_def month_order_def)
qed









subsection \<open>The columns that the team totals add\<close>

lemma snd_compute_ytd_by_team:
  "snd (compute_ytd_by_team df) =
     fold (ensure_column (Num 0))
       [Str ''Actual'', Str ''Unnamed: 20'', Str ''CAMPAIGN'', Str ''Media''] df"
  by (simp add: compute_ytd_by_team_def Let_def)

lemma wf_setitem:
  "wf_dataframe df \<Longrightarrow> length vs = nrows df \<Longrightarrow> wf_dataframe (setitem df c vs)"
proof -
  have "list_all P (AList.update c vs al)" if "list_all P al" "P (c, vs)"
    for P :: "cell \<times> cell list \<Rightarrow> bool" and al
    using that by (induction al) auto
  then show "wf_dataframe df \<Longrightarrow> length vs = nrows df \<Longrightarrow> wf_dataframe (setitem df c vs)"
    by (simp add: wf_dataframe_def setitem_def labels_def distinct_update)
qed

lemma wf_ensure_column: "wf_dataframe df \<Longrightarrow> wf_dataframe (ensure_column v c df)"
  by (simp add: ensure_column_def setitem_scalar_def wf_setitem)

lemma wf_fold_ensure: "wf_dataframe df \<Longrightarrow> wf_dataframe (fold (ensure_column v) cs df)"
  by (induction cs arbitrary: df) (simp_all add: wf_ensure_column)

text \<open>
  Claim C10. \<^verbatim>\<open>compute_ytd_by_team\<close> changes the table of its caller: each of the
  columns Actual, Unnamed: 20, CAMPAIGN and Media that is absent is appended, in this
  order, filled with zeros; the rows and the columns that were there stay. \<^verbatim>\<open>main\<close>
  hands the changed table to \<^verbatim>\<open>compute_channel_spend\<close>: on a table without a channel
  column that call would raise \<^verbatim>\<open>KeyError\<close>, after \<^verbatim>\<open>compute_ytd_by_team\<close> it returns.
\<close>

theorem compute_ytd_by_team_adds_columns:
  "nrows (snd (compute_ytd_by_team df)) = nrows df \<and>
   labels (snd (compute_ytd_by_team df)) =
     labels df @ filter (\<lambda>c. c \<notin> set (labels df))
                   [Str ''Actual'', Str ''Unnamed: 20'', Str ''CAMPAIGN'', Str ''Media''] \<and>
   (\<forall>c \<in> set [Str ''Actual'', Str ''Unnamed: 20'', Str ''CAMPAIGN'', Str ''Media''].
      c \<notin> set (labels df) \<longrightarrow>
      getitem (snd (compute_ytd_by_team df)) c = Inr (replicate (nrows df) (Num 0))) \<and>
   (\<forall>c \<in> set (labels df). getitem (snd (compute_ytd_by_team df)) c = getitem df c) \<and>
   (load_flowplan_dataframe raw = Inr df \<and> fst (compute_ytd_by_team df) = Inr (a, b) \<and>
    team_stats_of l1 b1 a = Inr ms \<and> team_stats_of l2 b2 b = Inr ds \<longrightarrow>
      main parse uniq raw (l1, b1, l2, b2) fs =
        (case compute_channel_spend parse (snd (compute_ytd_by_team df)) CURRENT_MONTH of
           Inl e \<Rightarrow> (Inl e, fs)
         | Inr pc \<Rightarrow> write_automated_summary uniq fs FILE_PATH ms ds pc CURRENT_MONTH)) \<and>
   (wf_dataframe df \<and> Str ''Media'' \<notin> set (labels df) \<longrightarrow>
      compute_channel_spend parse df CURRENT_MONTH = Inl KeyError \<and>
      (\<exists>pc. compute_channel_spend parse (snd (compute_ytd_by_team df)) CURRENT_MONTH = Inr pc))"
proof -
  let ?four = "[Str ''Actual'', Str ''Unnamed: 20'', Str ''CAMPAIGN'', Str ''Media'']"
  let ?df' = "snd (compute_ytd_by_team df)"
  have n: "nrows ?df' = nrows df"
    unfolding snd_compute_ytd_by_team by (rule nrows_fold_ensure)
  have l: "labels ?df' = labels df @ filter (\<lambda>c. c \<notin> set (labels df)) ?four"
    unfolding snd_compute_ytd_by_team by (rule labels_fold_ensure) simp
  have new: "\<forall>c \<in> set ?four. c \<notin> set (labels df) \<longrightarrow>
               getitem ?df' c = Inr (replicate (nrows df) (Num 0))"
    unfolding snd_compute_ytd_by_team getitem_fold_ensure by simp
  have old: "\<forall>c \<in> set (labels df). getitem ?df' c = getitem df c"
    unfolding snd_compute_ytd_by_team getitem_fold_ensure by simp
  have m: "main parse uniq raw (l1, b1, l2, b2) fs =
        (case compute_channel_spend parse ?df' CURRENT_MONTH of
           Inl e \<Rightarrow> (Inl e, fs)
         | Inr pc \<Rightarrow> write_automated_summary uniq fs FILE_PATH ms ds pc CURRENT_MONTH)"
    if "load_flowplan_dataframe raw = Inr df \<and> fst (compute_ytd_by_team df) = Inr (a, b) \<and>
        team_stats_of l1 b1 a = Inr ms \<and> team_stats_of l2 b2 b = Inr ds"
  proof -
    from that obtain d where e: "compute_ytd_by_team df = (Inr (a, b), d)"
      by (cases "compute_ytd_by_team df") auto
    then have d: "snd (compute_ytd_by_team df) = d"
      by simp
    show ?thesis
      unfolding d using that e by (simp add: main_def)
  qed
  have month: "py_index month_order (CURRENT_MONTH - 1) = Inr (month_order ! (nat CURRENT_MONTH - 1))"
    by (rule py_index_month_in_range) (simp_all add: CURRENT_MONTH_def)
  have vis: "compute_channel_spend parse df CURRENT_MONTH = Inl KeyError \<and>
      (\<exists>pc. compute_channel_spend parse ?df' CURRENT_MONTH = Inr pc)"
    if "wf_dataframe df \<and> Str ''Media'' \<notin> set (labels df)"
  proof
    from that have "getitem df (Str ''Media'') = Inl KeyError"
      by (simp add: getitem_cases)
    then show "compute_channel_spend parse df CURRENT_MONTH = Inl KeyError"
      by (simp add: compute_channel_spend_def month)
  next
    from that have wf': "wf_dataframe ?df'"
      unfolding snd_compute_ytd_by_team by (intro wf_fold_ensure) simp
    from that new have "getitem ?df' (Str ''Media'') = Inr (replicate (nrows df) (Num 0))"
      by simp
    from compute_channel_spend_eq [OF wf' this month]
    show "\<exists>pc. compute_channel_spend parse ?df' CURRENT_MONTH = Inr pc"
      by blast
  qed
  from n l new old m vis show ?thesis
    by blast
qed

text \<open>
  C10 on a sheet without a channel column: the columns Unnamed: 20 and Media are added,
  and the run lists the one channel 0.
\<close>

theorem compute_ytd_by_team_adds_columns_witness:
  "labels (snd (compute_ytd_by_team table_without_media)) =
     labels table_without_media @ [Str ''Unnamed: 20'', Str ''Media''] \<and>
   getitem (snd (compute_ytd_by_team table_without_media)) (Str ''Media'') = Inr [Num 0, Num 0] \<and>
   getitem (snd (compute_ytd_by_team table_without_media)) (Str ''Jan'') = Inr [NaN, Num 10] \<and>
   load_flowplan_dataframe raw_without_media = Inr table_without_media \<and>
   fst (compute_ytd_by_team table_without_media) = Inr (Num 0, Num 0) \<and>
   wf_dataframe table_without_media \<and>
   Str ''Media'' \<notin> set (labels table_without_media) \<and>
   compute_channel_spend (\<lambda>s. None) table_without_media CURRENT_MONTH = Inl KeyError \<and>
   compute_channel_spend (\<lambda>s. None) (snd (compute_ytd_by_team table_without_media)) CURRENT_MONTH =
     Inr [\<lparr>Media = Num 0, YTD = 30, MONTH = 0\<rparr>] \<and>
   main (\<lambda>s. None) (\<lambda>ns t. t) raw_without_media (1000, 100, 500, 50) flowplan_files =
     write_automated_summary (\<lambda>ns t. t) flowplan_files FILE_PATH
       (compute_team_stats 1000 100 0) (compute_team_stats 500 50 0)
       [\<lparr>Media = Num 0, YTD = 30, MONTH = 0\<rparr>] CURRENT_MONTH"
proof -
  let ?df = "table_without_media"
  note inst = compute_ytd_by_team_adds_columns [of ?df raw_without_media "Num 0" "Num 0"
      1000 100 "compute_team_stats 1000 100 0" 500 50 "compute_team_stats 500 50 0"
      "\<lambda>s. None" "\<lambda>ns t. t" flowplan_files]
  have lab: "labels ?df = [Str ''CAMPAIGN'', Str ''Actual'', Str ''Jan'', Str ''Feb'', Str ''Mar'',
      Str ''Apr'', Str ''May'', Str ''Jun'', Str ''Jul'', Str ''Aug'', Str ''Sep'', Str ''Oct'',
      Str ''Nov'', Str ''Dec'']"
    by code_simp
  have n: "nrows ?df = 2"
    by code_simp
  have jan: "getitem ?df (Str ''Jan'') = Inr [NaN, Num 10]"
    by code_simp
  have load: "load_flowplan_dataframe raw_without_media = Inr ?df"
    by code_simp
  have ytd: "fst (compute_ytd_by_team ?df) = Inr (Num 0, Num 0)"
    by code_simp
  have wf: "wf_dataframe ?df"
    by code_simp
  have run: "compute_channel_spend (\<lambda>s. None) (snd (compute_ytd_by_team ?df)) CURRENT_MONTH =
     Inr [\<lparr>Media = Num 0, YTD = 30, MONTH = 0\<rparr>]"
    by code_simp
  have l: "labels (snd (compute_ytd_by_team ?df)) = labels ?df @ [Str ''Unnamed: 20'', Str ''Media'']"
    using inst by (simp add: lab)
  have media: "getitem (snd (compute_ytd_by_team ?df)) (Str ''Media'') = Inr [Num 0, Num 0]"
    using inst by (simp add: lab n numeral_2_eq_2)
  have jan': "getitem (snd (compute_ytd_by_team ?df)) (Str ''Jan'') = Inr [NaN, Num 10]"
    using inst jan by (simp add: lab)
  have nomedia: "Str ''Media'' \<notin> set (labels ?df)"
    by (simp add: lab)
  have key: "compute_channel_spend (\<lambda>s. None) ?df CURRENT_MONTH = Inl KeyError"
    using inst wf nomedia by blast
  have m: "main (\<lambda>s. None) (\<lambda>ns t. t) raw_without_media (1000, 100, 500, 50) flowplan_files =
     write_automated_summary (\<lambda>ns t. t) flowplan_files FILE_PATH
       (compute_team_stats 1000 100 0) (compute_team_stats 500 50 0)
       [\<lparr>Media = Num 0, YTD = 30, MONTH = 0\<rparr>] CURRENT_MONTH"
    using inst load ytd run by (simp add: team_stats_of_def)
  from l media jan' load ytd wf nomedia key run m show ?thesis
    by blast
qed

section \<open>Properties of the summary writer\<close>

subsection \<open>Sheets of a workbook\<close>















subsection \<open>The output path\<close>

lemma str_replace_absent:
  assumes "old \<noteq> []" and "\<And>pre suf. s \<noteq> pre @ old @ suf"
  shows "str_replace old new s = s"
  using assms(2)
proof (induction s)
  case Nil
  with assms(1) show ?case by simp
next
  case (Cons c cs)
  have "take (length old) (c # cs) \<noteq> old"
  proof
    assume "take (length old) (c # cs) = old"
    then have "c # cs = [] @ old @ drop (length old) (c # cs)"
      by (metis append_Nil append_take_drop_id)
    with Cons.prems show False by blast
  qed
  moreover have "cs \<noteq> pre @ old @ suf" for pre suf
    using Cons.prems [of "c # pre" suf] by simp
  ultimately show ?case
    using assms(1) Cons.IH by simp
qed

text \<open>A name without a dot before the extension gets the marker, as intended.\<close>

lemma str_replace_xlsx_suffix:
  "CHR ''.'' \<notin> set stem \<Longrightarrow>
   str_replace ''.xlsx'' ''_automated.xlsx'' (stem @ ''.xlsx'') = stem @ ''_automated.xlsx''"
proof (induction stem)
  case Nil
  show ?case by simp
next
  case (Cons c cs)
  then have "c \<noteq> CHR ''.''" by auto
  then have "take (length ''.xlsx'') ((c # cs) @ ''.xlsx'') \<noteq> ''.xlsx''"
    by simp
  with Cons show ?case by simp
qed

text \<open>
  Claim C8 fails on the code: for the input path \<^verbatim>\<open>budget.xlsm\<close> (and likewise
  \<^verbatim>\<open>Budget.XLSX\<close>) the text \<^verbatim>\<open>.xlsx\<close> does not occur, the derived path is the input
  path, and the run saves the workbook with the added sheet over its input.
\<close>

theorem write_automated_summary_overwrites_input:
  "str_replace ''.xlsx'' ''_automated.xlsx'' ''budget.xlsm'' = ''budget.xlsm'' \<and>
   str_replace ''.xlsx'' ''_automated.xlsx'' ''Budget.XLSX'' = ''Budget.XLSX'' \<and>
   fst (write_automated_summary (\<lambda>ns t. t) xlsm_files ''budget.xlsm''
          (compute_team_stats 0 0 0) (compute_team_stats 0 0 0) [] 11) = Inr ''budget.xlsm'' \<and>
   sheetnames (the (workbooks xlsm_files ''budget.xlsm'')) = [''Sheet1''] \<and>
   sheetnames (the (workbooks (snd (write_automated_summary (\<lambda>ns t. t) xlsm_files ''budget.xlsm''
          (compute_team_stats 0 0 0) (compute_team_stats 0 0 0) [] 11)) ''budget.xlsm''))
     = [''Sheet1'', ''Automated Summary'']"
  by code_simp

section \<open>Properties of the loader\<close>

lemma getitems_missing:
  "c \<in> set cs \<Longrightarrow> c \<notin> set (labels df) \<Longrightarrow> getitems df cs = Inl KeyError"
proof (induction cs)
  case Nil
  then show ?case by simp
next
  case (Cons a cs)
  show ?case
  proof (cases "c = a")
    case True
    with Cons.prems show ?thesis by (simp add: getitem_cases)
  next
    case False
    with Cons have "getitems df cs = Inl KeyError" by simp
    then show ?thesis by (simp add: getitem_cases)
  qed
qed

lemma getitems_present:
  "\<forall>c \<in> set cs. c \<in> set (labels df) \<Longrightarrow>
   getitems df cs = Inr (map (\<lambda>c. the (map_of (cols df) c)) cs)"
  by (induction cs) (simp_all add: getitem_cases)

lemma load_flowplan_dataframe_loaded:
  assumes rows: "nrows raw \<noteq> 0" and wf: "wf_dataframe raw"
    and slots: "\<forall>c \<in> set (map Str month_cols_original). c \<in> set (labels raw)"
  shows "load_flowplan_dataframe raw =
         Inr \<lparr>nrows = nrows raw - 1,
              cols = map (\<lambda>(l, vs). (if l \<in> set (map Str month_cols_original) then hd vs else l,
                                     drop 1 vs))
                       (cols raw)\<rparr>"
proof -
  let ?ks = "map Str month_cols_original"
  let ?first = "\<lambda>vs. case vs of [] \<Rightarrow> NaN | v # x \<Rightarrow> v"
  let ?rm = "zip ?ks (map ?first (map (\<lambda>c. the (map_of (cols raw) c)) ?ks))"
  have g: "getitems raw ?ks = Inr (map (\<lambda>c. the (map_of (cols raw) c)) ?ks)"
    using slots by (rule getitems_present)
  have "?rm = zip ?ks (map (\<lambda>c. ?first (the (map_of (cols raw) c))) ?ks)"
    by (simp add: comp_def)
  then have rm: "map_of ?rm
             = (\<lambda>l. if l \<in> set ?ks then Some (?first (the (map_of (cols raw) l))) else None)"
    by (simp only: map_of_zip_map)
  have d: "distinct (map fst (cols raw))"
    using wf by (simp add: wf_dataframe_def labels_def)
  have col: "(case map_of ?rm l of None \<Rightarrow> l | Some l' \<Rightarrow> l', drop 1 vs)
             = (if l \<in> set ?ks then hd vs else l, drop 1 vs)"
    if "(l, vs) \<in> set (cols raw)" for l vs
  proof -
    from that d have "map_of (cols raw) l = Some vs"
      by simp
    moreover from that wf rows have "vs \<noteq> []"
      by (auto simp: wf_dataframe_def list_all_iff)
    ultimately show ?thesis
      unfolding rm by (cases vs) simp_all
  qed
  have "load_flowplan_dataframe raw = Inr (rename_columns (iloc_from_1 raw) ?rm)"
    using rows g by (simp add: load_flowplan_dataframe_def Let_def)
  also have "rename_columns (iloc_from_1 raw) ?rm
             = \<lparr>nrows = nrows raw - 1,
                 cols = map (\<lambda>(l, vs). (case map_of ?rm l of None \<Rightarrow> l | Some l' \<Rightarrow> l', drop 1 vs))
                          (cols raw)\<rparr>"
    by (auto simp: rename_columns_def iloc_from_1_def)
  also have "map (\<lambda>(l, vs). (case map_of ?rm l of None \<Rightarrow> l | Some l' \<Rightarrow> l', drop 1 vs)) (cols raw)
             = map (\<lambda>(l, vs). (if l \<in> set ?ks then hd vs else l, drop 1 vs)) (cols raw)"
    using col by (intro map_cong) auto
  finally show ?thesis .
qed

text \<open>
  Claim C5, as amended. The working copy of the channel rows in
  \<^verbatim>\<open>compute_channel_spend\<close> (lines 155 to 160) has all twelve month columns Jan..Dec
  for every table, a month column absent from the table being added as zeros. The loader
  adds no column. On a sheet without rows it raises \<^verbatim>\<open>IndexError\<close>; on a sheet with
  rows that lacks one of the twelve month slots it raises \<^verbatim>\<open>KeyError\<close>; on a
  well-formed sheet with rows and all twelve month slots it returns the sheet without its
  first row, with every column of the sheet and each month slot renamed to the cell in
  its first row.
\<close>

theorem month_columns_ensured:
  "(\<forall>m \<in> set month_order.
      Str m \<in> set (labels (channel_rows_of df media)) \<and>
      (Str m \<notin> set (labels df) \<longrightarrow>
         getitem (channel_rows_of df media) (Str m) =
           Inr (replicate (nrows (channel_rows_of df media)) (Num 0)))) \<and>
   (nrows raw = 0 \<longrightarrow> load_flowplan_dataframe raw = Inl IndexError) \<and>
   (nrows raw \<noteq> 0 \<and> (\<exists>c \<in> set (map Str month_cols_original). c \<notin> set (labels raw)) \<longrightarrow>
      load_flowplan_dataframe raw = Inl KeyError) \<and>
   (nrows raw \<noteq> 0 \<and> wf_dataframe raw \<and>
    (\<forall>c \<in> set (map Str month_cols_original). c \<in> set (labels raw)) \<longrightarrow>
      load_flowplan_dataframe raw =
        Inr \<lparr>nrows = nrows raw - 1,
             cols = map (\<lambda>(l, vs). (if l \<in> set (map Str month_cols_original) then hd vs else l,
                                    drop 1 vs))
                      (cols raw)\<rparr>)"
proof (intro conjI ballI impI)
  fix m assume m: "m \<in> set month_order"
  then show "Str m \<in> set (labels (channel_rows_of df media))"
    by (simp add: channel_rows_of_def set_labels_fold_ensure)
  assume "Str m \<notin> set (labels df)"
  with m show "getitem (channel_rows_of df media) (Str m) =
           Inr (replicate (nrows (channel_rows_of df media)) (Num 0))"
    by (simp add: channel_rows_of_def getitem_fold_ensure labels_mask_rows nrows_fold_ensure)
next
  assume "nrows raw = 0"
  then show "load_flowplan_dataframe raw = Inl IndexError"
    by (simp add: load_flowplan_dataframe_def)
next
  assume "nrows raw \<noteq> 0 \<and> (\<exists>c \<in> set (map Str month_cols_original). c \<notin> set (labels raw))"
  then show "load_flowplan_dataframe raw = Inl KeyError"
    by (auto simp: load_flowplan_dataframe_def dest: getitems_missing simp del: set_map)
next
  assume "nrows raw \<noteq> 0 \<and> wf_dataframe raw \<and>
    (\<forall>c \<in> set (map Str month_cols_original). c \<in> set (labels raw))"
  then show "load_flowplan_dataframe raw =
        Inr \<lparr>nrows = nrows raw - 1,
             cols = map (\<lambda>(l, vs). (if l \<in> set (map Str month_cols_original) then hd vs else l,
                                    drop 1 vs))
                      (cols raw)\<rparr>"
    by (intro load_flowplan_dataframe_loaded) simp_all
qed

text \<open>
  The amended C5 on the example table, which has no column Mar, on a sheet without rows,
  on the sheet without the last month slot and on the sheet whose first month label is
  January.
\<close>

theorem month_columns_ensured_witness:
  "''Mar'' \<in> set month_order \<and>
   Str ''Mar'' \<in> set (labels (channel_rows_of example_table
                           [NaN, Str ''DV360'', Str ''DV360'', Str ''Social''])) \<and>
   Str ''Mar'' \<notin> set (labels example_table) \<and>
   getitem (channel_rows_of example_table [NaN, Str ''DV360'', Str ''DV360'', Str ''Social''])
     (Str ''Mar'') = Inr [Num 0, Num 0, Num 0] \<and>
   nrows raw_empty = 0 \<and>
   load_flowplan_dataframe raw_empty = Inl IndexError \<and>
   nrows raw_without_dec \<noteq> 0 \<and>
   Str ''Unnamed: 18'' \<in> set (map Str month_cols_original) \<and>
   Str ''Unnamed: 18'' \<notin> set (labels raw_without_dec) \<and>
   load_flowplan_dataframe raw_without_dec = Inl KeyError \<and>
   nrows raw_january \<noteq> 0 \<and> wf_dataframe raw_january \<and>
   load_flowplan_dataframe raw_january =
     Inr \<lparr>nrows = 1,
          cols = [(Str ''Media'', [Str ''DV360'']),
                  (Str ''January'', [Num 10]),
                  (Str ''Feb'', [Num 20]),
                  (Str ''Mar'', [NaN]),
                  (Str ''Apr'', [NaN]),
                  (Str ''May'', [NaN]),
                  (Str ''Jun'', [NaN]),
                  (Str ''Jul'', [NaN]),
                  (Str ''Aug'', [NaN]),
                  (Str ''Sep'', [NaN]),
                  (Str ''Oct'', [NaN]),
                  (Str ''Nov'', [NaN]),
                  (Str ''Dec'', [NaN])]\<rparr>"
proof -
  let ?media = "[NaN, Str ''DV360'', Str ''DV360'', Str ''Social'']"
  let ?loaded = "\<lparr>nrows = 1,
          cols = [(Str ''Media'', [Str ''DV360'']),
                  (Str ''January'', [Num 10]),
                  (Str ''Feb'', [Num 20]),
                  (Str ''Mar'', [NaN]),
                  (Str ''Apr'', [NaN]),
                  (Str ''May'', [NaN]),
                  (Str ''Jun'', [NaN]),
                  (Str ''Jul'', [NaN]),
                  (Str ''Aug'', [NaN]),
                  (Str ''Sep'', [NaN]),
                  (Str ''Oct'', [NaN]),
                  (Str ''Nov'', [NaN]),
                  (Str ''Dec'', [NaN])]\<rparr>"
  have mar: "''Mar'' \<in> set month_order"
    by (simp add: month_order_def)
  have absent: "Str ''Mar'' \<notin> set (labels example_table)"
    by code_simp
  have n: "replicate (nrows (channel_rows_of example_table ?media)) (Num 0) = [Num 0, Num 0, Num 0]"
    by code_simp
  have none: "nrows raw_empty = 0"
    by code_simp
  have rows: "nrows raw_without_dec \<noteq> 0"
    by code_simp
  have slot: "Str ''Unnamed: 18'' \<in> set (map Str month_cols_original)"
    by (simp add: month_cols_original_def)
  have nodec: "Str ''Unnamed: 18'' \<notin> set (labels raw_without_dec)"
    by code_simp
  have rows': "nrows raw_january \<noteq> 0"
    by code_simp
  have wf: "wf_dataframe raw_january"
    by code_simp
  have all: "\<forall>c \<in> set (map Str month_cols_original). c \<in> set (labels raw_january)"
    by code_simp
  have loaded: "\<lparr>nrows = nrows raw_january - 1,
             cols = map (\<lambda>(l, vs). (if l \<in> set (map Str month_cols_original) then hd vs else l,
                                    drop 1 vs))
                      (cols raw_january)\<rparr> = ?loaded"
    by code_simp
  from month_columns_ensured [of example_table ?media raw_without_dec]
  have ch: "Str ''Mar'' \<in> set (labels (channel_rows_of example_table ?media))"
    and zero: "getitem (channel_rows_of example_table ?media) (Str ''Mar'') = Inr [Num 0, Num 0, Num 0]"
    and key: "load_flowplan_dataframe raw_without_dec = Inl KeyError"
    using mar absent n rows slot nodec by auto
  from month_columns_ensured [of example_table ?media raw_empty] none
  have idx: "load_flowplan_dataframe raw_empty = Inl IndexError"
    by blast
  from month_columns_ensured [of example_table ?media raw_january] rows' wf all
  have "load_flowplan_dataframe raw_january =
        Inr \<lparr>nrows = nrows raw_january - 1,
             cols = map (\<lambda>(l, vs). (if l \<in> set (map Str month_cols_original) then hd vs else l,
                                    drop 1 vs))
                      (cols raw_january)\<rparr>"
    by blast
  with loaded have load: "load_flowplan_dataframe raw_january = Inr ?loaded"
    by simp
  from mar ch absent zero none idx rows slot nodec key rows' wf load show ?thesis
    by blast
qed

text \<open>
  Claim C5 as written fails: on a sheet without the last month slot the loader raises
  \<^verbatim>\<open>KeyError\<close>, and on a sheet whose first month label is January the loaded table has
  no column Jan.
\<close>

theorem load_flowplan_dataframe_months_counterexample:
  "load_flowplan_dataframe raw_without_dec = Inl KeyError \<and>
   (case load_flowplan_dataframe raw_january of Inl e \<Rightarrow> [] | Inr df \<Rightarrow> labels df) =
     [Str ''Media'', Str ''January'', Str ''Feb'', Str ''Mar'', Str ''Apr'', Str ''May'',
      Str ''Jun'', Str ''Jul'', Str ''Aug'', Str ''Sep'', Str ''Oct'', Str ''Nov'', Str ''Dec'']"
  by code_simp

section \<open>Properties of the team totals\<close>

text \<open>A total is a number or a text, never a missing value.\<close>

lemma py_add_not_NaN: "a \<noteq> NaN \<Longrightarrow> b \<noteq> NaN \<Longrightarrow> py_add a b \<noteq> Inr NaN"
  by (cases a; cases b) simp_all

lemma add_reduce_not_NaN:
  "acc \<noteq> NaN \<Longrightarrow> \<forall>x \<in> set xs. x \<noteq> NaN \<Longrightarrow> add_reduce acc xs \<noteq> Inr NaN"
proof (induction xs arbitrary: acc)
  case Nil
  then show ?case by simp
next
  case (Cons x xs)
  show ?case
  proof (cases "py_add acc x")
    case (Inl e)
    then show ?thesis by simp
  next
    case (Inr acc')
    with Cons.prems have "acc' \<noteq> NaN"
      using py_add_not_NaN [of acc x] by auto
    with Cons Inr show ?thesis by simp
  qed
qed

lemma series_sum_not_NaN: "series_sum vs \<noteq> Inr NaN"
proof (cases "map (fillna (Num 0)) vs")
  case Nil
  then show ?thesis by (simp add: series_sum_def)
next
  case (Cons x xs)
  have "\<forall>v \<in> set (map (fillna (Num 0)) vs). v \<noteq> NaN"
    by (auto simp: fillna_def isna_def)
  with Cons have "x \<noteq> NaN" "\<forall>v \<in> set xs. v \<noteq> NaN"
    by simp_all
  then have "add_reduce x xs \<noteq> Inr NaN"
    by (rule add_reduce_not_NaN)
  with Cons show ?thesis by (simp add: series_sum_def)
qed

text \<open>
  On a well-formed table whose amounts are numbers or missing, the totals are the sums,
  taken exactly.
\<close>

lemma add_reduce_numbers: "add_reduce (Num a) (map Num rs) = Inr (Num (a + sum_list rs))"
  by (induction rs arbitrary: a) (simp_all add: add.assoc)

lemma fillna_numeric: "\<not> is_Str v \<Longrightarrow> fillna (Num 0) v = Num (num_value v)"
  by (cases v) (simp_all add: fillna_def isna_def num_value_def is_Str_def)

lemma series_sum_numeric:
  assumes "\<forall>v \<in> set vs. \<not> is_Str v"
  shows "series_sum vs = Inr (Num (\<Sum>v\<leftarrow>vs. num_value v))"
proof -
  have e: "map (fillna (Num 0)) vs = map Num (map num_value vs)"
    using assms by (simp add: fillna_numeric)
  show ?thesis
  proof (cases vs)
    case Nil
    then show ?thesis by (simp add: series_sum_def)
  next
    case (Cons v vs')
    with e have "map (fillna (Num 0)) vs = Num (num_value v) # map Num (map num_value vs')"
      by simp
    then have "series_sum vs = add_reduce (Num (num_value v)) (map Num (map num_value vs'))"
      by (simp add: series_sum_def)
    with Cons show ?thesis
      by (simp only: add_reduce_numbers) simp
  qed
qed

lemma ensure_column_present: "c \<in> set (labels df) \<Longrightarrow> ensure_column v c df = df"
  by (simp add: ensure_column_def)

lemma compute_ytd_by_team_numeric:
  assumes wf: "wf_dataframe df"
    and c: "getitem df (Str ''CAMPAIGN'') = Inr campaign"
    and m: "getitem df (Str ''Media'') = Inr media"
    and a: "getitem df (Str ''Actual'') = Inr actual"
    and u: "getitem df (Str ''Unnamed: 20'') = Inr dm_actual"
    and num: "\<forall>i < nrows df. campaign ! i \<noteq> NaN \<and> media ! i = NaN \<longrightarrow>
                \<not> is_Str (actual ! i) \<and> \<not> is_Str (dm_actual ! i)"
  shows "compute_ytd_by_team df =
         (Inr (Num (\<Sum>i\<leftarrow>filter (\<lambda>i. campaign ! i \<noteq> NaN \<and> media ! i = NaN) [0..<nrows df].
                      num_value (actual ! i)),
               Num (\<Sum>i\<leftarrow>filter (\<lambda>i. campaign ! i \<noteq> NaN \<and> media ! i = NaN) [0..<nrows df].
                      num_value (dm_actual ! i))),
          df)"
proof -
  let ?bs = "map2 (\<and>) (map notna campaign) (map isna media)"
  let ?is = "filter (\<lambda>i. campaign ! i \<noteq> NaN \<and> media ! i = NaN) [0..<nrows df]"
  have len: "length campaign = nrows df" "length media = nrows df"
    "length actual = nrows df" "length dm_actual = nrows df"
    using wf c m a u by (simp_all add: wf_getitem_length)
  have same: "fold (ensure_column (Num 0))
                [Str ''Actual'', Str ''Unnamed: 20'', Str ''CAMPAIGN'', Str ''Media''] df = df"
    using c m a u by (simp add: ensure_column_present getitem_Inr_label)
  have is_eq: "filter ((!) ?bs) [0..<nrows df] = ?is"
    using len by (intro filter_cong) (simp_all add: notna_def isna_def)
  have sel: "select ?bs vs = map ((!) vs) ?is" if "length vs = nrows df" for vs :: "cell list"
    using that len is_eq select_nth [of ?bs vs] by simp
  have tot: "series_sum (map (fillna (Num 0)) (select ?bs vs)) = Inr (Num (\<Sum>i\<leftarrow>?is. num_value (vs ! i)))"
    if l: "length vs = nrows df" and n: "\<forall>i < nrows df. campaign ! i \<noteq> NaN \<and> media ! i = NaN \<longrightarrow> \<not> is_Str (vs ! i)"
    for vs :: "cell list"
  proof -
    have "map (fillna (Num 0)) (select ?bs vs) = map (\<lambda>i. Num (num_value (vs ! i))) ?is"
      unfolding sel [OF l] using n by (simp add: fillna_numeric)
    moreover have "series_sum (map (\<lambda>i. Num (num_value (vs ! i))) ?is)
                   = Inr (Num (\<Sum>v\<leftarrow>map (\<lambda>i. Num (num_value (vs ! i))) ?is. num_value v))"
      by (rule series_sum_numeric) (simp add: is_Str_def)
    ultimately show ?thesis
      by (simp add: comp_def num_value_def)
  qed
  show ?thesis
    unfolding compute_ytd_by_team_def same
    using tot [OF len(3)] tot [OF len(4)] num
    by (simp add: c m a u getitem_mask_rows)
qed

text \<open>
  Claim C4 fails on the code: \<^verbatim>\<open>compute_ytd_by_team\<close> fills missing amounts with zero
  but does not coerce texts, so on two campaign-summary rows with the amounts 100 and
  n/a the sum raises \<^verbatim>\<open>TypeError\<close>, where the claim has the total 100.
\<close>

theorem compute_ytd_by_team_text_cell:
  "fst (compute_ytd_by_team table_text_actual) = Inl TypeError"
  by code_simp

end
